theory Spec2Isabelle
  imports Main "HOL-Library.Sublist" "HOL-Library.Multiset"
begin

section \<open>Text: characters, case folding, whitespace\<close>

text \<open>
  Python strings are modelled as \<^typ>\<open>string\<close>; a character is a code point below 256
  (Latin-1), so the non-breaking space \<open>\xa0\<close> of the source is the single character
  \<open>CHR 0xA0\<close>.
\<close>

definition lower_char :: "char \<Rightarrow> char" where
  \<comment> \<open>lower-casing of one code point, as \<open>str.lower\<close> and \<open>re.IGNORECASE\<close> do it:
      A-Z and the accented capitals 0xC0-0xDE (without the multiplication sign 0xD7)\<close>
  "lower_char c =
     (let n = (of_char c :: int)
      in if (65 \<le> n \<and> n \<le> 90) \<or> (192 \<le> n \<and> n \<le> 222 \<and> n \<noteq> 215)
         then char_of (n + 32) else c)"

definition lower :: "string \<Rightarrow> string" where
  "lower s = map lower_char s"

definition isspace :: "char \<Rightarrow> bool" where
  \<comment> \<open>\<open>str.isspace\<close> on code points below 256: TAB..CR, FS..US, space, NEL, NBSP\<close>
  "isspace c =
     (let n = (of_char c :: int)
      in (9 \<le> n \<and> n \<le> 13) \<or> (28 \<le> n \<and> n \<le> 32) \<or> n = 133 \<or> n = 160)"

definition strip :: "string \<Rightarrow> string" where
  \<comment> \<open>\<open>str.strip()\<close>: leading and trailing whitespace removed\<close>
  "strip s = rev (dropWhile isspace (rev (dropWhile isspace s)))"

definition endswith :: "string \<Rightarrow> string \<Rightarrow> bool" where
  "endswith s suf = suffix suf s"

definition vervang_nbsp :: "string \<Rightarrow> string" where
  \<comment> \<open>\<open>x.replace('\xa0', ' ')\<close>\<close>
  "vervang_nbsp s = map (\<lambda>c. if c = CHR 0xA0 then CHR '' '' else c) s"

fun join :: "string \<Rightarrow> string list \<Rightarrow> string" where
  \<comment> \<open>\<open>sep.join(xs)\<close>\<close>
  "join sep [] = []"
| "join sep [x] = x"
| "join sep (x # y # ys) = x @ sep @ join sep (y # ys)"

fun split_op :: "char \<Rightarrow> string \<Rightarrow> string list" where
  \<comment> \<open>\<open>s.split(c)\<close> for a one-character separator: always at least one part\<close>
  "split_op c [] = [[]]"
| "split_op c (x # xs) =
     (if x = c then [] # split_op c xs
      else (case split_op c xs of [] \<Rightarrow> [[x]] | p # ps \<Rightarrow> (x # p) # ps))"

section \<open>Regular expressions of the shape the script uses\<close>

text \<open>
  Every pattern handed to \<open>Series.str.contains\<close> is a \<open>|\<close>-separated list of
  alternatives made of ordinary characters and the wildcard \<open>.\<close> (which occurs in
  \<open>Fluoresc. preparaat\<close> and \<open>C.psittaci\<close>). \<open>re_compile\<close> reads such a pattern;
  \<open>re_search\<close> is \<open>re.search\<close>: some alternative matches at some position.
\<close>

datatype atoom = Lit char | Punt

definition re_compile :: "string \<Rightarrow> atoom list list" where
  "re_compile pat = map (map (\<lambda>c. if c = CHR ''.'' then Punt else Lit c)) (split_op CHR ''|'' pat)"

fun atoom_past :: "bool \<Rightarrow> atoom \<Rightarrow> char \<Rightarrow> bool" where
  \<comment> \<open>the flag is \<open>case\<close>: \<open>False\<close> compiles with \<open>re.IGNORECASE\<close>; \<open>.\<close> matches
      everything but a newline\<close>
  "atoom_past cs (Lit a) c = (if cs then a = c else lower_char a = lower_char c)"
| "atoom_past cs Punt c = (c \<noteq> CHR 0x0A)"

fun past_hier :: "bool \<Rightarrow> atoom list \<Rightarrow> string \<Rightarrow> bool" where
  "past_hier cs [] s = True"
| "past_hier cs (a # as) [] = False"
| "past_hier cs (a # as) (c # s) = (atoom_past cs a c \<and> past_hier cs as s)"

fun re_search :: "bool \<Rightarrow> atoom list list \<Rightarrow> string \<Rightarrow> bool" where
  "re_search cs alts [] = list_ex (\<lambda>alt. past_hier cs alt []) alts"
| "re_search cs alts (c # s) =
     (list_ex (\<lambda>alt. past_hier cs alt (c # s)) alts \<or> re_search cs alts s)"

section \<open>Cells and long records\<close>

text \<open>
  A cell of a data frame: missing (\<open>NaN\<close>), text, a whole number, or a date. Floating
  point values and booleans are outside the model.
\<close>

datatype cel = NaN | Tekst string | Getal int | Datum int int int

definition isna :: "cel \<Rightarrow> bool" where
  "isna c = (c = NaN)"

definition cijfer :: "nat \<Rightarrow> char" where
  "cijfer d = char_of (48 + d)"

fun str_nat :: "nat \<Rightarrow> string" where
  "str_nat n = (if n < 10 then [cijfer n] else str_nat (n div 10) @ [cijfer (n mod 10)])"

declare str_nat.simps [simp del]

definition str_int :: "int \<Rightarrow> string" where
  "str_int i = (if i < 0 then CHR ''-'' # str_nat (nat (- i)) else str_nat (nat i))"

definition zfill :: "nat \<Rightarrow> string \<Rightarrow> string" where
  "zfill w s = replicate (w - length s) CHR ''0'' @ s"

fun astype_str :: "cel \<Rightarrow> string" where
  \<comment> \<open>\<open>astype(str)\<close> on one value of an object column: \<open>str(x)\<close>, and the missing value
      becomes the text \<open>nan\<close>\<close>
  "astype_str NaN = ''nan''"
| "astype_str (Tekst s) = s"
| "astype_str (Getal i) = str_int i"
| "astype_str (Datum y m d) =
     zfill 4 (str_int y) @ ''-'' @ zfill 2 (str_int m) @ ''-'' @ zfill 2 (str_int d) @ '' 00:00:00''"

definition str_contains :: "string \<Rightarrow> bool \<Rightarrow> bool \<Rightarrow> cel \<Rightarrow> bool" where
  \<comment> \<open>\<open>Series.str.contains(pat, case=cs, na=na)\<close> on one value: a regular expression
      search on text, \<open>na\<close> on everything that is not text\<close>
  "str_contains pat cs na c = (case c of Tekst s \<Rightarrow> re_search cs (re_compile pat) s | _ \<Rightarrow> na)"

record longrecord =
  Organisme :: cel
  Resistentie :: cel
  Afdeling :: string
  Waarde :: cel
  BRMO :: int
  ESBL :: int
  VRE :: int
  MRSA :: int
  CARBA :: int
  Jaar :: int
  Maand :: int

section \<open>filter_exclusie\<close>

definition verboden_woorden :: "string list" where
  "verboden_woorden =
     [''coccen'', ''staven'', ''Coagulase-negatieve'', ''Fluoresc. preparaat'', ''vergroenend'',
      ''gekweekt'', ''BRMO PCR'', ''ESBL/CPE PCR'', ''IgG'', ''IgM'']"

definition verboden_taxonomie :: "string list" where
  "verboden_taxonomie =
     [''Plasmodium'', ''C.psittaci'', ''Q-koorts'', ''Rotavirus antigeen sneltest'',
      ''Adenovirus antigeen sneltest'', ''MRSA PCR sneltest'', ''MRSA PCR'', ''MRSA DNA'',
      ''VRE PCR sneltest'']"

definition mask_verboden_woorden :: "longrecord \<Rightarrow> bool" where
  "mask_verboden_woorden r = str_contains (join ''|'' verboden_woorden) False False (Organisme r)"

definition mask_verboden_taxonomie :: "longrecord \<Rightarrow> bool" where
  "mask_verboden_taxonomie r = str_contains (join ''|'' verboden_taxonomie) False False (Organisme r)"

definition mask_komma :: "longrecord \<Rightarrow> bool" where
  "mask_komma r = str_contains '','' True False (Organisme r)"

definition mask_exclusie :: "longrecord \<Rightarrow> bool" where
  "mask_exclusie r = (mask_verboden_woorden r \<or> mask_verboden_taxonomie r \<or> mask_komma r)"

definition filter_exclusie :: "longrecord list \<Rightarrow> longrecord list \<times> longrecord list" where
  \<comment> \<open>returns \<open>(df_behouden, df_exclusie)\<close>\<close>
  "filter_exclusie df = (filter (\<lambda>r. \<not> mask_exclusie r) df, filter mask_exclusie df)"

section \<open>Exceptions\<close>

text \<open>
  One constructor for each \<open>raise\<close> of the script, carrying the names the message is
  built from and, where the \<open>raise\<close> stands in an \<open>except\<close> block, the exception
  it was raised from; the other constructors are the exceptions of Python and of the
  libraries (\<open>Extern\<close> stands for whatever the spreadsheet reader raises). \<open>melding\<close> is
  \<open>str(e)\<close>, the text an f-string puts in for \<open>{e}\<close> (library messages are shortened).
\<close>

datatype exc =
    IndexError string
  | KeyError string
  | ValueError string
  | NameError string
  | Extern string
  | GeenDatum string string
  | DatumFout string string exc
  | GeenData string string
  | TabelFout string string exc
  | OpenFout string exc
  | GeenDataInMap
  | CombineerFout exc


section \<open>Data frames\<close>

text \<open>
  A data frame is the list of its columns, each a header and the cells below it; in a
  frame that pandas can build all columns have the same length (\<open>wf_frame\<close>). Headers
  are text. The operations are those of pandas 2, which the script needs for
  \<open>DataFrame.map\<close>, on the values of the cells; the element type that pandas keeps for
  each column is not part of the model.
\<close>

type_synonym frame = "(string \<times> cel list) list"

definition kolomnamen :: "frame \<Rightarrow> string list" where
  "kolomnamen df = map fst df"



definition iloc :: "frame \<Rightarrow> nat \<Rightarrow> nat \<Rightarrow> exc + cel" where
  \<comment> \<open>\<open>df.iloc[i, j]\<close>\<close>
  "iloc df i j =
     (if j < length df \<and> i < length (snd (df ! j)) then Inr (snd (df ! j) ! i)
      else Inl (IndexError ''single positional indexer is out-of-bounds''))"

definition iloc_kolom :: "frame \<Rightarrow> nat \<Rightarrow> exc + cel list" where
  \<comment> \<open>\<open>df.iloc[:, j]\<close>\<close>
  "iloc_kolom df j =
     (if j < length df then Inr (snd (df ! j))
      else Inl (IndexError ''single positional indexer is out-of-bounds''))"

definition iloc_vanaf :: "nat \<Rightarrow> frame \<Rightarrow> frame" where
  \<comment> \<open>\<open>df.iloc[:, n:]\<close>\<close>
  "iloc_vanaf n df = drop n df"

definition rij_heeft_waarde :: "frame \<Rightarrow> nat \<Rightarrow> bool" where
  "rij_heeft_waarde df i = list_ex (\<lambda>(h, cs). i < length cs \<and> \<not> isna (cs ! i)) df"

definition dropna_rijen :: "frame \<Rightarrow> frame" where
  \<comment> \<open>\<open>df.dropna(how='all')\<close>: a row stays when some column has a value in it\<close>
  "dropna_rijen df =
     map (\<lambda>(h, cs). (h, map snd (filter (\<lambda>(i, c). rij_heeft_waarde df i) (enumerate 0 cs)))) df"

definition dropna_kolommen :: "frame \<Rightarrow> frame" where
  \<comment> \<open>\<open>df.dropna(axis=1, how='all')\<close>\<close>
  "dropna_kolommen df = filter (\<lambda>(h, cs). list_ex (\<lambda>c. \<not> isna c) cs) df"

definition strip_kolomnamen :: "frame \<Rightarrow> frame" where
  \<comment> \<open>\<open>df.columns = df.columns.str.strip()\<close>\<close>
  "strip_kolomnamen df = map (\<lambda>(h, cs). (strip h, cs)) df"

definition nbsp_cel :: "cel \<Rightarrow> cel" where
  \<comment> \<open>\<open>lambda x: x.replace('\xa0', ' ') if isinstance(x, str) else x\<close>\<close>
  "nbsp_cel x = (case x of Tekst s \<Rightarrow> Tekst (vervang_nbsp s) | _ \<Rightarrow> x)"

definition map_cellen :: "(cel \<Rightarrow> cel) \<Rightarrow> frame \<Rightarrow> frame" where
  \<comment> \<open>\<open>df.map(f)\<close>\<close>
  "map_cellen f df = map (\<lambda>(h, cs). (h, map f cs)) df"

definition schoon_cel :: "cel \<Rightarrow> cel" where
  \<comment> \<open>one value through \<open>.astype(str).replace('nan', '').str.strip().replace('', np.nan)\<close>\<close>
  "schoon_cel c =
     (let s = astype_str c;
          s = (if s = ''nan'' then [] else s);
          s = strip s
      in if s = [] then NaN else Tekst s)"

definition setitem :: "frame \<Rightarrow> string \<Rightarrow> cel list \<Rightarrow> frame" where
  \<comment> \<open>\<open>df[key] = vals\<close>: every column of that name is overwritten; a new name is
      appended as the last column\<close>
  "setitem df key vals =
     (if key \<in> set (kolomnamen df) then map (\<lambda>(h, cs). if h = key then (h, vals) else (h, cs)) df
      else df @ [(key, vals)])"

definition laatste_kolomnaam :: "frame \<Rightarrow> exc + string" where
  \<comment> \<open>\<open>df.columns[-1]\<close>\<close>
  "laatste_kolomnaam df =
     (if df = [] then Inl (IndexError ''index -1 is out of bounds for axis 0 with size 0'')
      else Inr (last (kolomnamen df)))"

definition getitem_lijst :: "frame \<Rightarrow> string list \<Rightarrow> exc + frame" where
  \<comment> \<open>\<open>df[keys]\<close> for a list of labels: for each label in turn, every column of that
      name; a label that is no column is a KeyError\<close>
  "getitem_lijst df keys =
     (case filter (\<lambda>k. k \<notin> set (kolomnamen df)) keys of
        [] \<Rightarrow> Inr (concat (map (\<lambda>k. filter (\<lambda>(h, cs). h = k) df) keys))
      | k # _ \<Rightarrow> Inl (KeyError (k @ '' not in index'')))"

fun eerste_voorkomens :: "string list \<Rightarrow> frame \<Rightarrow> frame" where
  \<comment> \<open>the columns that \<open>~df.columns.duplicated()\<close> keeps: those whose header was not
      seen further to the left\<close>
  "eerste_voorkomens gezien [] = []"
| "eerste_voorkomens gezien ((h, cs) # df) =
     (if h \<in> set gezien then eerste_voorkomens gezien df
      else (h, cs) # eerste_voorkomens (h # gezien) df)"

definition ontdubbel :: "frame \<Rightarrow> frame" where
  \<comment> \<open>\<open>df.loc[:, ~df.columns.duplicated()]\<close>\<close>
  "ontdubbel df = eerste_voorkomens [] df"

type_synonym gesmolten = "cel \<times> cel \<times> string \<times> cel"

definition melt :: "frame \<Rightarrow> exc + gesmolten list" where
  \<comment> \<open>\<open>df.melt(id_vars=['Organisme', 'Resistentie'], var_name='Afdeling',
      value_name='Waarde')\<close>: rows \<open>(Organisme, Resistentie, Afdeling, Waarde)\<close>, column after
      column. pandas refuses a \<open>value_name\<close> that is already a column label\<close>
  "melt df =
     (if ''Waarde'' \<in> set (kolomnamen df)
      then Inl (ValueError ''value_name (Waarde) cannot match an element in the DataFrame columns.'')
      else (case (map_of df ''Organisme'', map_of df ''Resistentie'') of
              (Some orgs, Some ress) \<Rightarrow>
                Inr (concat (map (\<lambda>(h, vs). map (\<lambda>((org, res), v). (org, res, h, v)) (zip (zip orgs ress) vs))
                       (filter (\<lambda>(h, vs). h \<noteq> ''Organisme'' \<and> h \<noteq> ''Resistentie'') df)))
            | _ \<Rightarrow> Inl (KeyError ''The following id_vars are not present in the DataFrame'')))"

section \<open>Dates: \<open>pd.to_datetime(x, format='%d-%m-%Y')\<close>\<close>

text \<open>
  The format is matched as \<open>strptime\<close> does: a day field (one or two digits, or a blank
  and a digit), a month field (one or two digits) and a year field of exactly four digits,
  separated by hyphens, with nothing before or after; the three numbers must form a date of
  the calendar. The result is \<open>(year, month, day)\<close>. The limits of the Timestamp range
  and the spellings of a missing time (\<open>NaT\<close>) that pandas accepts in place of a date are
  not part of the model.
\<close>

definition is_cijfer :: "char \<Rightarrow> bool" where
  "is_cijfer c = (let n = (of_char c :: int) in 48 \<le> n \<and> n \<le> 57)"

definition getal_van :: "string \<Rightarrow> int" where
  "getal_van s = foldl (\<lambda>a c. 10 * a + (of_char c - 48)) 0 s"

definition dag_veld :: "string \<Rightarrow> int option" where
  \<comment> \<open>\<open>%d\<close>: \<open>3[0-1]|[1-2]\d|0[1-9]|[1-9]| [1-9]\<close>\<close>
  "dag_veld s =
     (case s of
        [a] \<Rightarrow> if is_cijfer a \<and> a \<noteq> CHR ''0'' then Some (getal_van [a]) else None
      | [a, b] \<Rightarrow>
          if a = CHR '' '' \<and> is_cijfer b \<and> b \<noteq> CHR ''0'' then Some (getal_van [b])
          else if is_cijfer a \<and> is_cijfer b \<and> 1 \<le> getal_van [a, b] \<and> getal_van [a, b] \<le> 31
          then Some (getal_van [a, b]) else None
      | _ \<Rightarrow> None)"

definition maand_veld :: "string \<Rightarrow> int option" where
  \<comment> \<open>\<open>%m\<close>: \<open>1[0-2]|0[1-9]|[1-9]\<close>\<close>
  "maand_veld s =
     (case s of
        [a] \<Rightarrow> if is_cijfer a \<and> a \<noteq> CHR ''0'' then Some (getal_van [a]) else None
      | [a, b] \<Rightarrow>
          if is_cijfer a \<and> is_cijfer b \<and> 1 \<le> getal_van [a, b] \<and> getal_van [a, b] \<le> 12
          then Some (getal_van [a, b]) else None
      | _ \<Rightarrow> None)"

definition jaar_veld :: "string \<Rightarrow> int option" where
  \<comment> \<open>\<open>%Y\<close>: \<open>\d\d\d\d\<close>\<close>
  "jaar_veld s = (if length s = 4 \<and> list_all is_cijfer s then Some (getal_van s) else None)"

definition schrikkeljaar :: "int \<Rightarrow> bool" where
  "schrikkeljaar y = (y mod 4 = 0 \<and> (y mod 100 \<noteq> 0 \<or> y mod 400 = 0))"

definition dagen_in_maand :: "int \<Rightarrow> int \<Rightarrow> int" where
  "dagen_in_maand y m =
     (if m = 2 then (if schrikkeljaar y then 29 else 28)
      else if m = 4 \<or> m = 6 \<or> m = 9 \<or> m = 11 then 30 else 31)"

definition strptime_dmy :: "string \<Rightarrow> exc + (int \<times> int \<times> int)" where
  "strptime_dmy s =
     (case split_op CHR ''-'' s of
        [ds, ms, ys] \<Rightarrow>
          (case (dag_veld ds, maand_veld ms, jaar_veld ys) of
             (Some d, Some m, Some y) \<Rightarrow>
               if 1 \<le> y \<and> d \<le> dagen_in_maand y m then Inr (y, m, d)
               else Inl (ValueError ''day is out of range for month'')
           | _ \<Rightarrow> Inl (ValueError ''time data does not match format %d-%m-%Y''))
      | _ \<Rightarrow> Inl (ValueError ''time data does not match format %d-%m-%Y''))"

section \<open>Workbooks\<close>

text \<open>
  Reading a workbook is the work of pandas. An opened workbook is the list of its sheets by
  name; of each sheet the model holds what the two calls of \<open>pd.read_excel\<close> give for it,
  a frame or the exception raised:
  \<open>read_c2\<close> for \<open>header=None, nrows=2, usecols="C"\<close> (one column, at most two rows) and
  \<open>read_tabel\<close> for \<open>skiprows=2\<close> (the third row of the sheet as headers).
\<close>

record blad =
  read_c2 :: "exc + frame"
  read_tabel :: "exc + frame"

type_synonym excelfile = "(string \<times> blad) list"

definition sheet_names :: "excelfile \<Rightarrow> string list" where
  "sheet_names xls = map fst xls"

definition read_excel_c2 :: "excelfile \<Rightarrow> string \<Rightarrow> exc + frame" where
  \<comment> \<open>\<open>pd.read_excel(xls, sheet_name=sheet, header=None, nrows=2, usecols="C")\<close>\<close>
  "read_excel_c2 xls sheet =
     (case map_of xls sheet of
        None \<Rightarrow> Inl (ValueError (''Worksheet named '' @ sheet @ '' not found''))
      | Some b \<Rightarrow> read_c2 b)"

definition read_excel_tabel :: "excelfile \<Rightarrow> string \<Rightarrow> exc + frame" where
  \<comment> \<open>\<open>pd.read_excel(xls, sheet_name=sheet, skiprows=2)\<close>\<close>
  "read_excel_tabel xls sheet =
     (case map_of xls sheet of
        None \<Rightarrow> Inl (ValueError (''Worksheet named '' @ sheet @ '' not found''))
      | Some b \<Rightarrow> read_tabel b)"

section \<open>lees_datum_uit_cel\<close>

definition lees_datum_try :: "excelfile \<Rightarrow> string \<Rightarrow> string \<Rightarrow> exc + (int \<times> int)" where
  \<comment> \<open>the body of the \<open>try\<close>, lines 34 to 40\<close>
  "lees_datum_try xls sheet bestand =
     (case read_excel_c2 xls sheet of
        Inl e \<Rightarrow> Inl e
      | Inr datumcel \<Rightarrow>
          (case iloc datumcel 1 0 of
             Inl e \<Rightarrow> Inl e
           | Inr datumwaarde \<Rightarrow>
               (case (case datumwaarde of
                        NaN \<Rightarrow> Inl (GeenDatum bestand sheet)
                      | Tekst s \<Rightarrow> strptime_dmy s
                      | Getal i \<Rightarrow> strptime_dmy (str_int i)
                      | Datum y m d \<Rightarrow> Inr (y, m, d)) of
                  Inl e \<Rightarrow> Inl e
                | Inr (y, m, d) \<Rightarrow> Inr (y, m))))"

definition lees_datum_uit_cel :: "excelfile \<Rightarrow> string \<Rightarrow> string \<Rightarrow> exc + (int \<times> int)" where
  \<comment> \<open>\<open>except Exception as e\<close>, line 42: whatever the body raised is raised again inside
      the message of line 43\<close>
  "lees_datum_uit_cel xls sheet bestand =
     (case lees_datum_try xls sheet bestand of
        Inl e \<Rightarrow> Inl (DatumFout bestand sheet e)
      | Inr jm \<Rightarrow> Inr jm)"

section \<open>verwerk_sheet\<close>

definition genormaliseerd :: "frame \<Rightarrow> frame" where
  \<comment> \<open>lines 80 to 85, after the read: columns from the third on, empty rows and columns
      dropped, headers stripped, non-breaking spaces replaced\<close>
  "genormaliseerd gelezen =
     map_cellen nbsp_cel (strip_kolomnamen (dropna_kolommen (dropna_rijen (iloc_vanaf 2 gelezen))))"

definition afdelingskolommen :: "string \<Rightarrow> string list \<Rightarrow> string list" where
  \<comment> \<open>line 92: \<open>df.columns[2:-1] if df.columns[-1] == 'Organisme' else df.columns[2:]\<close>\<close>
  "afdelingskolommen laatste namen =
     (if laatste = ''Organisme'' then butlast (drop 2 namen) else drop 2 namen)"

definition voor_melt :: "frame \<Rightarrow> exc + frame" where
  \<comment> \<open>lines 88 to 95 on the normalised frame: the frame that is melted\<close>
  "voor_melt df =
     (case iloc_kolom df 0 of
        Inl e \<Rightarrow> Inl e
      | Inr k0 \<Rightarrow>
          (let df1 = setitem df ''Organisme'' (map schoon_cel k0)
           in case iloc_kolom df1 1 of
                Inl e \<Rightarrow> Inl e
              | Inr k1 \<Rightarrow>
                  (let df2 = setitem df1 ''Resistentie'' (map schoon_cel k1)
                   in case laatste_kolomnaam df2 of
                        Inl e \<Rightarrow> Inl e
                      | Inr laatste \<Rightarrow>
                          (case getitem_lijst df2
                                  ([''Organisme'', ''Resistentie'']
                                     @ afdelingskolommen laatste (kolomnamen df2)) of
                             Inl e \<Rightarrow> Inl e
                           | Inr df3 \<Rightarrow> Inr (ontdubbel df3)))))"

definition binaire_kolommen :: "int \<Rightarrow> int \<Rightarrow> gesmolten \<Rightarrow> longrecord" where
  \<comment> \<open>lines 109 to 117 on one row of the melted frame\<close>
  "binaire_kolommen jaar maand =
     (\<lambda>(org, res, afd, w).
        \<lparr>Organisme = org, Resistentie = res, Afdeling = afd, Waarde = w,
         BRMO = of_bool (str_contains ''BRMO|ESBL|VRE|MRSA|CARBA'' False False res),
         ESBL = of_bool (str_contains ''ESBL'' False False res),
         VRE = of_bool (str_contains ''VRE'' False False res),
         MRSA = of_bool (str_contains ''MRSA'' False False res),
         CARBA = of_bool (str_contains ''CARBA'' False False res),
         Jaar = jaar, Maand = maand\<rparr>)"

definition verwerk_sheet_try ::
  "excelfile \<Rightarrow> string \<Rightarrow> string \<Rightarrow> int \<Rightarrow> int \<Rightarrow> exc + longrecord list" where
  \<comment> \<open>the body of the \<open>try\<close>, lines 80 to 119\<close>
  "verwerk_sheet_try xls sheet bestand jaar maand =
     (case read_excel_tabel xls sheet of
        Inl e \<Rightarrow> Inl e
      | Inr gelezen \<Rightarrow>
          (case voor_melt (genormaliseerd gelezen) of
             Inl e \<Rightarrow> Inl e
           | Inr df \<Rightarrow>
               (case melt df of
                  Inl e \<Rightarrow> Inl e
                | Inr long_df \<Rightarrow>
                    if long_df = [] then Inl (GeenData bestand sheet)
                    else Inr (map (binaire_kolommen jaar maand) long_df))))"

definition verwerk_sheet ::
  "excelfile \<Rightarrow> string \<Rightarrow> string \<Rightarrow> int \<Rightarrow> int \<Rightarrow> exc + longrecord list" where
  \<comment> \<open>\<open>except Exception as e\<close>, line 120\<close>
  "verwerk_sheet xls sheet bestand jaar maand =
     (case verwerk_sheet_try xls sheet bestand jaar maand of
        Inl e \<Rightarrow> Inl (TabelFout bestand sheet e)
      | Inr long_df \<Rightarrow> Inr long_df)"

section \<open>verwerk_excelbestand and main\<close>

fun verwerk_sheets ::
  "excelfile \<Rightarrow> string \<Rightarrow> string list \<Rightarrow> longrecord list list \<Rightarrow> exc + longrecord list list" where
  \<comment> \<open>the loop of lines 142 to 145; the last argument is \<open>resultaat_per_bestand\<close>\<close>
  "verwerk_sheets xls bestand [] resultaat = Inr resultaat"
| "verwerk_sheets xls bestand (sheet # sheets) resultaat =
     (case lees_datum_uit_cel xls sheet bestand of
        Inl e \<Rightarrow> Inl e
      | Inr (jaar, maand) \<Rightarrow>
          (case verwerk_sheet xls sheet bestand jaar maand of
             Inl e \<Rightarrow> Inl e
           | Inr long_df \<Rightarrow> verwerk_sheets xls bestand sheets (resultaat @ [long_df])))"

definition verwerk_excelbestand :: "exc + excelfile \<Rightarrow> string \<Rightarrow> exc + longrecord list list" where
  \<comment> \<open>the first argument is what \<open>pd.ExcelFile(bestandpad)\<close> gives\<close>
  "verwerk_excelbestand geopend bestand =
     (case geopend of
        Inl e \<Rightarrow> Inl (OpenFout bestand e)
      | Inr xls \<Rightarrow> verwerk_sheets xls bestand (sheet_names xls) [])"

fun verwerk_map ::
  "(string \<times> (exc + excelfile)) list \<Rightarrow> longrecord list list \<Rightarrow> exc + longrecord list list" where
  \<comment> \<open>the loop of lines 199 to 202 over the directory listing; the last argument is
      \<open>alle_data\<close>\<close>
  "verwerk_map [] alle_data = Inr alle_data"
| "verwerk_map ((bestand, geopend) # rest) alle_data =
     (if endswith (lower bestand) ''.xlsx'' \<or> endswith (lower bestand) ''.xlsm''
      then (case verwerk_excelbestand geopend bestand of
              Inl e \<Rightarrow> Inl e
            | Inr dfs \<Rightarrow> verwerk_map rest (alle_data @ dfs))
      else verwerk_map rest alle_data)"

definition naam_opzoeken :: "(string \<times> 'a) list \<Rightarrow> string \<Rightarrow> exc + 'a" where
  \<comment> \<open>reading a variable: a name that is bound nowhere is a NameError\<close>
  "naam_opzoeken scope n = (case map_of scope n of None \<Rightarrow> Inl (NameError n) | Some v \<Rightarrow> Inr v)"

definition main_try :: "longrecord list list \<Rightarrow> exc + (longrecord list \<times> longrecord list)" where
  \<comment> \<open>the body of the \<open>try\<close>, lines 208 to 212. The frames bound at line 212 are
      \<open>res_binair\<close> and \<open>res_binair_no_0\<close>; the argument of \<open>filter_exclusie\<close> is read
      under the name \<open>res_binair_no_o\<close>, which neither \<open>main\<close> nor the module binds\<close>
  "main_try alle_data =
     (let res_binair = concat alle_data;
          res_binair_no_0 = filter (\<lambda>r. Waarde r \<noteq> Getal 0) res_binair;
          scope = [(''res_binair'', res_binair), (''res_binair_no_0'', res_binair_no_0)]
      in case naam_opzoeken scope ''res_binair_no_o'' of
           Inl e \<Rightarrow> Inl e
         | Inr df \<Rightarrow> Inr (filter_exclusie df))"

definition main :: "(string \<times> (exc + excelfile)) list \<Rightarrow> exc + (longrecord list \<times> longrecord list)" where
  \<comment> \<open>the argument is \<open>os.listdir(pad_naar_excelmap)\<close>, each name with what opening it
      gives; the result is \<open>(resultaat, exclusie)\<close>\<close>
  "main map_inhoud =
     (case verwerk_map map_inhoud [] of
        Inl e \<Rightarrow> Inl e
      | Inr alle_data \<Rightarrow>
          if alle_data = [] then Inl GeenDataInMap
          else (case main_try alle_data of
                  Inl e \<Rightarrow> Inl (CombineerFout e)
                | Inr paar \<Rightarrow> Inr paar))"

section \<open>Notions used in the statements\<close>

definition rij_record :: "int \<Rightarrow> int \<Rightarrow> cel \<Rightarrow> cel \<Rightarrow> string \<Rightarrow> cel \<Rightarrow> longrecord" where
  \<comment> \<open>the long record made of one row of the normalised sheet: its cell \<open>org\<close> in the
      column read at line 88, its cell \<open>res\<close> in the column read at line 90, and its cell
      \<open>w\<close> in the department column \<open>afd\<close>\<close>
  "rij_record jaar maand org res afd w =
     binaire_kolommen jaar maand (schoon_cel org, schoon_cel res, afd, w)"

definition bevat_ci :: "string \<Rightarrow> string \<Rightarrow> bool" where
  \<comment> \<open>the specification's words: the label contains the trigger as a substring, the case
      of letters ignored\<close>
  "bevat_ci label trigger = sublist (lower trigger) (lower label)"


section \<open>Example inputs\<close>

text \<open>
  The worksheet of the end-to-end example: the date \<open>15-03-2024\<close> in C2, and below the
  header row one data row, \<open>E. coli\<close> with the label \<open>ESBL positief\<close>, 3 in department
  \<open>Afd A\<close> and 0 in department \<open>Afd B\<close>. Columns A and B of the sheet are empty.
\<close>

definition vb_tabel :: frame where
  "vb_tabel =
     [(''Unnamed: 0'', [NaN]), (''Unnamed: 1'', [NaN]),
      (''Naam'', [Tekst ''E. coli'']), (''Type'', [Tekst ''ESBL positief'']),
      (''Afd A'', [Getal 3]), (''Afd B'', [Getal 0])]"

definition vb_blad :: blad where
  "vb_blad =
     \<lparr>read_c2 = Inr [(''0'', [Tekst ''Datum'', Tekst ''15-03-2024''])],
      read_tabel = Inr vb_tabel\<rparr>"

definition vb_xls :: excelfile where
  "vb_xls = [(''Blad1'', vb_blad)]"

definition vb_map :: "(string \<times> (exc + excelfile)) list" where
  "vb_map = [(''maart.xlsx'', Inr vb_xls)]"

definition vb_record :: "cel \<Rightarrow> string \<Rightarrow> int \<Rightarrow> longrecord" where
  "vb_record org afd w =
     \<lparr>Organisme = org, Resistentie = Tekst ''ESBL positief'', Afdeling = afd, Waarde = Getal w,
      BRMO = 1, ESBL = 1, VRE = 0, MRSA = 0, CARBA = 0, Jaar = 2024, Maand = 3\<rparr>"



definition vb_laatste :: frame where
  "vb_laatste =
     [(''Unnamed: 0'', [NaN]), (''Unnamed: 1'', [NaN]),
      (''Naam'', [Tekst ''E. coli'']), (''Type'', [Tekst ''ESBL positief'']),
      (''Afd A'', [Getal 3]), (''Organisme'', [Getal 7])]"


definition vb_xls_met :: "frame \<Rightarrow> excelfile" where
  "vb_xls_met tabel =
     [(''Blad1'', \<lparr>read_c2 = Inr [(''0'', [Tekst ''Datum'', Tekst ''15-03-2024''])],
                   read_tabel = Inr tabel\<rparr>)]"


text \<open>
  A sheet with an empty resistance cell, a resistance cell of blanks, and the text
  \<open>nan\<close> as organism and as resistance; and the long records it gives.
\<close>

definition vb_blanco :: frame where
  "vb_blanco =
     [(''Unnamed: 0'', [NaN, NaN, NaN, NaN]), (''Unnamed: 1'', [NaN, NaN, NaN, NaN]),
      (''Naam'', [Tekst ''E. coli'', Tekst ''nan'', Tekst ''S. aureus'', Tekst ''K. oxytoca'']),
      (''Type'', [NaN, Tekst [CHR 0xA0, CHR '' ''], Tekst ''MRSA'', Tekst ''nan'']),
      (''Afd A'', [Getal 3, Getal 1, Getal 2, Getal 5])]"


section \<open>Regular expression search and substrings\<close>

lemma past_hier_lit: "past_hier False (map Lit w) s \<longleftrightarrow> prefix (lower w) (lower s)"
proof (induction w arbitrary: s)
  case Nil
  then show ?case by (simp add: lower_def)
next
  case (Cons a w)
  then show ?case by (cases s) (auto simp: lower_def)
qed

lemma re_search_lits:
  "re_search False (map (map Lit) ws) s \<longleftrightarrow> (\<exists>w \<in> set ws. sublist (lower w) (lower s))"
proof (induction s)
  case Nil
  then show ?case by (auto simp: list_ex_iff past_hier_lit lower_def)
next
  case (Cons c s)
  have "lower (c # s) = lower_char c # lower s" by (simp add: lower_def)
  then show ?case using Cons
    by (auto simp: list_ex_iff past_hier_lit sublist_Cons_right)
qed





section \<open>The exclusion filter\<close>






section \<open>Frames: columns set, selected and deduplicated\<close>

lemma setitem_key: "(k, cs) \<in> set (setitem df k v) \<Longrightarrow> cs = v"
  by (auto simp: setitem_def kolomnamen_def split: if_splits) force

lemma setitem_other: "h \<noteq> k \<Longrightarrow> (h, cs) \<in> set (setitem df k v) \<longleftrightarrow> (h, cs) \<in> set df"
  by (force simp: setitem_def kolomnamen_def image_iff split: if_splits)

lemma kolomnamen_setitem: "set (kolomnamen (setitem df k v)) = insert k (set (kolomnamen df))"
  by (auto simp: setitem_def kolomnamen_def image_iff split: if_splits) force+

lemma eerste_voorkomens_skip:
  "\<forall>x \<in> set xs. fst x \<in> set gezien \<Longrightarrow>
     eerste_voorkomens gezien (xs @ ys) = eerste_voorkomens gezien ys"
  by (induction xs) auto

lemma eerste_voorkomens_namen:
  "distinct (map fst (eerste_voorkomens gezien df))
   \<and> set (map fst (eerste_voorkomens gezien df)) = set (map fst df) - set gezien
   \<and> set (eerste_voorkomens gezien df) \<subseteq> set df"
proof (induction gezien df rule: eerste_voorkomens.induct)
  case (1 gezien)
  then show ?case by simp
next
  case (2 gezien h cs df)
  then show ?case by (cases "h \<in> set gezien") auto
qed

lemma filter_kolom_vorm:
  assumes "k \<in> set (kolomnamen df)" and "\<And>cs. (k, cs) \<in> set df \<Longrightarrow> cs = v"
  shows "\<exists>n. filter (\<lambda>(h, cs). h = k) df = replicate (Suc n) (k, v)"
proof -
  let ?xs = "filter (\<lambda>(h, cs). h = k) df"
  have "\<forall>y \<in> set ?xs. y = (k, v)" using assms(2) by auto
  then have "replicate (length ?xs) (k, v) = ?xs" by (rule replicate_length_same)
  moreover have "?xs \<noteq> []" using assms(1) by (auto simp: kolomnamen_def filter_empty_conv)
  then obtain n where "length ?xs = Suc n" by (cases ?xs) auto
  ultimately show ?thesis by metis
qed

lemma eerste_voorkomens_replicate:
  "k \<notin> set gezien \<Longrightarrow>
     eerste_voorkomens gezien (replicate (Suc n) (k, v) @ ys) = (k, v) # eerste_voorkomens (k # gezien) ys"
  using eerste_voorkomens_skip [of "replicate n (k, v)" "k # gezien" ys] by simp

lemma voor_melt_vorm:
  assumes "voor_melt df = Inr df'"
  shows "\<exists>k0 k1 afd. iloc_kolom df 0 = Inr k0
           \<and> iloc_kolom (setitem df ''Organisme'' (map schoon_cel k0)) 1 = Inr k1
           \<and> df' = (''Organisme'', map schoon_cel k0) # (''Resistentie'', map schoon_cel k1) # afd
           \<and> distinct (map fst afd)
           \<and> ''Organisme'' \<notin> set (map fst afd) \<and> ''Resistentie'' \<notin> set (map fst afd)
           \<and> set afd \<subseteq> set (setitem (setitem df ''Organisme'' (map schoon_cel k0))
                                ''Resistentie'' (map schoon_cel k1))"
proof -
  from assms obtain k0 where k0: "iloc_kolom df 0 = Inr k0"
    by (auto simp: voor_melt_def split: sum.splits)
  define df1 where "df1 = setitem df ''Organisme'' (map schoon_cel k0)"
  from assms k0 obtain k1 where k1: "iloc_kolom df1 1 = Inr k1"
    by (auto simp: voor_melt_def df1_def Let_def split: sum.splits)
  define df2 where "df2 = setitem df1 ''Resistentie'' (map schoon_cel k1)"
  from assms k0 k1 obtain laatste df3 where
    l: "laatste_kolomnaam df2 = Inr laatste" and
    g: "getitem_lijst df2 ([''Organisme'', ''Resistentie''] @ afdelingskolommen laatste (kolomnamen df2)) = Inr df3" and
    d: "df' = ontdubbel df3"
    by (auto simp: voor_melt_def df1_def df2_def Let_def split: sum.splits)
  define afdk where "afdk = afdelingskolommen laatste (kolomnamen df2)"
  define C where "C = concat (map (\<lambda>k. filter (\<lambda>(h, cs). h = k) df2) afdk)"
  have df3: "df3 = filter (\<lambda>(h, cs). h = ''Organisme'') df2 @ filter (\<lambda>(h, cs). h = ''Resistentie'') df2 @ C"
    using g by (auto simp: getitem_lijst_def afdk_def C_def split: list.splits)
  have org_in: "''Organisme'' \<in> set (kolomnamen df2)" and res_in: "''Resistentie'' \<in> set (kolomnamen df2)"
    by (simp_all add: df2_def df1_def kolomnamen_setitem)
  have org_v: "cs = map schoon_cel k0" if "(''Organisme'', cs) \<in> set df2" for cs
  proof -
    from that have "(''Organisme'', cs) \<in> set df1"
      by (simp add: df2_def setitem_other)
    then show ?thesis by (auto simp: df1_def dest: setitem_key)
  qed
  have res_v: "cs = map schoon_cel k1" if "(''Resistentie'', cs) \<in> set df2" for cs
    using that by (auto simp: df2_def dest: setitem_key)
  obtain n where A: "filter (\<lambda>(h, cs). h = ''Organisme'') df2 = replicate (Suc n) (''Organisme'', map schoon_cel k0)"
    using filter_kolom_vorm [OF org_in org_v] by blast
  obtain m where B: "filter (\<lambda>(h, cs). h = ''Resistentie'') df2 = replicate (Suc m) (''Resistentie'', map schoon_cel k1)"
    using filter_kolom_vorm [OF res_in res_v] by blast
  define afd where "afd = eerste_voorkomens [''Resistentie'', ''Organisme''] C"
  have "df' = (''Organisme'', map schoon_cel k0) # (''Resistentie'', map schoon_cel k1) # afd"
  proof -
    have "eerste_voorkomens [] (replicate (Suc n) (''Organisme'', map schoon_cel k0) @
            replicate (Suc m) (''Resistentie'', map schoon_cel k1) @ C)
          = (''Organisme'', map schoon_cel k0) # eerste_voorkomens [''Organisme'']
              (replicate (Suc m) (''Resistentie'', map schoon_cel k1) @ C)"
      by (rule eerste_voorkomens_replicate) simp
    also have "eerste_voorkomens [''Organisme''] (replicate (Suc m) (''Resistentie'', map schoon_cel k1) @ C)
          = (''Resistentie'', map schoon_cel k1) # eerste_voorkomens [''Resistentie'', ''Organisme''] C"
      by (rule eerste_voorkomens_replicate) simp
    finally show ?thesis
      unfolding d ontdubbel_def df3 A B afd_def .
  qed
  then have eq: "df' = (''Organisme'', map schoon_cel k0) # (''Resistentie'', map schoon_cel k1) # afd" .
  have "set C \<subseteq> set df2" by (auto simp: C_def)
  with eerste_voorkomens_namen [of "[''Resistentie'', ''Organisme'']" C]
  have props: "distinct (map fst afd)" "''Organisme'' \<notin> set (map fst afd)"
    "''Resistentie'' \<notin> set (map fst afd)" "set afd \<subseteq> set df2"
    unfolding afd_def by auto
  show ?thesis
    using k0 k1 eq props unfolding df1_def df2_def by blast
qed

lemma melt_vorm:
  assumes "''Organisme'' \<notin> set (map fst afd)" and "''Resistentie'' \<notin> set (map fst afd)"
  shows "melt ((''Organisme'', orgs) # (''Resistentie'', ress) # afd) =
           (if ''Waarde'' \<in> set (map fst afd)
            then Inl (ValueError ''value_name (Waarde) cannot match an element in the DataFrame columns.'')
            else Inr (concat (map (\<lambda>(h, vs). map (\<lambda>((org, res), v). (org, res, h, v))
                                              (zip (zip orgs ress) vs)) afd)))"
proof -
  have "filter (\<lambda>(h, vs). h \<noteq> ''Organisme'' \<and> h \<noteq> ''Resistentie'') afd = afd"
    using assms by (intro filter_True) force
  then show ?thesis
    by (simp add: melt_def kolomnamen_def)
qed

lemma verwerk_sheet_vorm:
  assumes "verwerk_sheet xls sheet bestand jaar maand = Inr long_df"
  shows "\<exists>gelezen k0 k1 afd.
           read_excel_tabel xls sheet = Inr gelezen
           \<and> iloc_kolom (genormaliseerd gelezen) 0 = Inr k0
           \<and> iloc_kolom (setitem (genormaliseerd gelezen) ''Organisme'' (map schoon_cel k0)) 1 = Inr k1
           \<and> voor_melt (genormaliseerd gelezen)
               = Inr ((''Organisme'', map schoon_cel k0) # (''Resistentie'', map schoon_cel k1) # afd)
           \<and> distinct (map fst afd)
           \<and> ''Organisme'' \<notin> set (map fst afd) \<and> ''Resistentie'' \<notin> set (map fst afd)
           \<and> ''Waarde'' \<notin> set (map fst afd)
           \<and> long_df \<noteq> []
           \<and> long_df = concat (map (\<lambda>(h, vs). map (\<lambda>((org, res), v). rij_record jaar maand org res h v)
                                                   (zip (zip k0 k1) vs)) afd)"
proof -
  from assms obtain gelezen df m where
    r: "read_excel_tabel xls sheet = Inr gelezen" and
    v: "voor_melt (genormaliseerd gelezen) = Inr df" and
    m: "melt df = Inr m" and ne: "m \<noteq> []" and
    l: "long_df = map (binaire_kolommen jaar maand) m"
    by (auto simp: verwerk_sheet_def verwerk_sheet_try_def split: sum.splits if_splits)
  from voor_melt_vorm [OF v] obtain k0 k1 afd where
    k0: "iloc_kolom (genormaliseerd gelezen) 0 = Inr k0" and
    k1: "iloc_kolom (setitem (genormaliseerd gelezen) ''Organisme'' (map schoon_cel k0)) 1 = Inr k1" and
    df: "df = (''Organisme'', map schoon_cel k0) # (''Resistentie'', map schoon_cel k1) # afd" and
    di: "distinct (map fst afd)" and
    no: "''Organisme'' \<notin> set (map fst afd)" and nr: "''Resistentie'' \<notin> set (map fst afd)"
    by blast
  from m have nw: "''Waarde'' \<notin> set (map fst afd)"
    unfolding df melt_vorm [OF no nr] by (simp split: if_splits)
  from m nw have m': "m = concat (map (\<lambda>(h, vs). map (\<lambda>((org, res), v). (org, res, h, v))
                        (zip (zip (map schoon_cel k0) (map schoon_cel k1)) vs)) afd)"
    unfolding df melt_vorm [OF no nr] by simp
  have "long_df = concat (map (\<lambda>(h, vs). map (\<lambda>((org, res), v). rij_record jaar maand org res h v)
                                                   (zip (zip k0 k1) vs)) afd)"
    unfolding l m' map_concat
    by (simp add: comp_def case_prod_unfold rij_record_def zip_map1 zip_map2)

  moreover have "long_df \<noteq> []" using l ne by simp
  ultimately show ?thesis
    using r k0 k1 v df di no nr nw by blast
qed

section \<open>Frames: all columns of one length\<close>








section \<open>The reshape\<close>







lemma rij_record_velden:
  "Organisme (rij_record jaar maand org res afd w) = schoon_cel org"
  "Resistentie (rij_record jaar maand org res afd w) = schoon_cel res"
  "Afdeling (rij_record jaar maand org res afd w) = afd"
  "Waarde (rij_record jaar maand org res afd w) = w"
  "Jaar (rij_record jaar maand org res afd w) = jaar"
  "Maand (rij_record jaar maand org res afd w) = maand"
  by (simp_all add: rij_record_def binaire_kolommen_def)

lemma verwerk_sheet_rij:
  assumes "verwerk_sheet xls sheet bestand jaar maand = Inr long_df" and "r \<in> set long_df"
  shows "\<exists>org res afd w. r = rij_record jaar maand org res afd w
           \<and> afd \<noteq> ''Organisme'' \<and> afd \<noteq> ''Resistentie'' \<and> afd \<noteq> ''Waarde''"
proof -
  from verwerk_sheet_vorm [OF assms(1)] obtain k0 k1 afd where
    no: "''Organisme'' \<notin> set (map fst afd)" and nr: "''Resistentie'' \<notin> set (map fst afd)" and
    nw: "''Waarde'' \<notin> set (map fst afd)" and
    l: "long_df = concat (map (\<lambda>(h, vs). map (\<lambda>((org, res), v). rij_record jaar maand org res h v)
                                                   (zip (zip k0 k1) vs)) afd)"
    by blast
  from assms(2) obtain h vs org res v where
    h: "(h, vs) \<in> set afd" and r: "r = rij_record jaar maand org res h v"
    unfolding l by auto
  from h have "h \<in> set (map fst afd)" by force
  with no nr nw have "h \<noteq> ''Organisme''" "h \<noteq> ''Resistentie''" "h \<noteq> ''Waarde''"
    by blast+
  with r show ?thesis by blast
qed

text \<open>
  Claim C2. When the last header of the pruned data region is \<open>Organisme\<close>, the frame
  that is melted has \<open>Organisme\<close> and \<open>Resistentie\<close> as its first two columns and no
  column called \<open>Organisme\<close> among the department columns that follow them, and no long
  record of the sheet has \<open>Organisme\<close> as its \<open>Afdeling\<close>.
\<close>

theorem laatste_organisme_geen_afdeling:
  assumes "read_excel_tabel xls sheet = Inr gelezen"
    and "genormaliseerd gelezen \<noteq> []"
    and "last (kolomnamen (genormaliseerd gelezen)) = ''Organisme''"
  shows "(\<forall>df. voor_melt (genormaliseerd gelezen) = Inr df \<longrightarrow>
             take 2 (kolomnamen df) = [''Organisme'', ''Resistentie'']
             \<and> ''Organisme'' \<notin> set (drop 2 (kolomnamen df)))
         \<and> (\<forall>long_df. verwerk_sheet xls sheet bestand jaar maand = Inr long_df \<longrightarrow>
               (\<forall>r \<in> set long_df. Afdeling r \<noteq> ''Organisme''))"
proof (intro conjI allI impI ballI)
  fix df assume "voor_melt (genormaliseerd gelezen) = Inr df"
  from voor_melt_vorm [OF this] obtain k0 k1 afd where
    "df = (''Organisme'', map schoon_cel k0) # (''Resistentie'', map schoon_cel k1) # afd"
    "''Organisme'' \<notin> set (map fst afd)"
    by blast
  then show "take 2 (kolomnamen df) = [''Organisme'', ''Resistentie'']"
    and "''Organisme'' \<notin> set (drop 2 (kolomnamen df))"
    by (simp_all add: kolomnamen_def)
next
  fix long_df r
  assume "verwerk_sheet xls sheet bestand jaar maand = Inr long_df" and "r \<in> set long_df"
  from verwerk_sheet_rij [OF this] show "Afdeling r \<noteq> ''Organisme''"
    by (auto simp: rij_record_velden)
qed

lemma vb_laatste_genormaliseerd:
  "genormaliseerd vb_laatste =
     [(''Naam'', [Tekst ''E. coli'']), (''Type'', [Tekst ''ESBL positief'']),
      (''Afd A'', [Getal 3]), (''Organisme'', [Getal 7])]"
  by code_simp

lemma vb_laatste_voor_melt:
  "voor_melt [(''Naam'', [Tekst ''E. coli'']), (''Type'', [Tekst ''ESBL positief'']),
      (''Afd A'', [Getal 3]), (''Organisme'', [Getal 7])] =
     Inr [(''Organisme'', [Tekst ''E. coli'']), (''Resistentie'', [Tekst ''ESBL positief'']),
          (''Afd A'', [Getal 3])]"
  by code_simp

lemma vb_laatste_verwerk_sheet:
  "verwerk_sheet (vb_xls_met vb_laatste) ''Blad1'' ''maart.xlsx'' 2024 3 =
     Inr [vb_record (Tekst ''E. coli'') ''Afd A'' 3]"
  by code_simp

theorem laatste_organisme_geen_afdeling_witness:
  "genormaliseerd vb_laatste \<noteq> []
   \<and> last (kolomnamen (genormaliseerd vb_laatste)) = ''Organisme''
   \<and> voor_melt (genormaliseerd vb_laatste) =
       Inr [(''Organisme'', [Tekst ''E. coli'']), (''Resistentie'', [Tekst ''ESBL positief'']),
            (''Afd A'', [Getal 3])]
   \<and> ''Organisme'' \<notin> set (drop 2 (kolomnamen
         [(''Organisme'', [Tekst ''E. coli'']), (''Resistentie'', [Tekst ''ESBL positief'']),
          (''Afd A'', [Getal 3])]))
   \<and> verwerk_sheet (vb_xls_met vb_laatste) ''Blad1'' ''maart.xlsx'' 2024 3 =
       Inr [vb_record (Tekst ''E. coli'') ''Afd A'' 3]
   \<and> Afdeling (vb_record (Tekst ''E. coli'') ''Afd A'' 3) \<noteq> ''Organisme''"
proof -
  have h1: "read_excel_tabel (vb_xls_met vb_laatste) ''Blad1'' = Inr vb_laatste"
    by (simp add: read_excel_tabel_def vb_xls_met_def)
  have h2: "genormaliseerd vb_laatste \<noteq> []"
    by (simp add: vb_laatste_genormaliseerd)
  have h3: "last (kolomnamen (genormaliseerd vb_laatste)) = ''Organisme''"
    by (simp add: vb_laatste_genormaliseerd kolomnamen_def)
  have v: "voor_melt (genormaliseerd vb_laatste) =
       Inr [(''Organisme'', [Tekst ''E. coli'']), (''Resistentie'', [Tekst ''ESBL positief'']),
            (''Afd A'', [Getal 3])]"
    by (simp only: vb_laatste_genormaliseerd vb_laatste_voor_melt)
  note t = laatste_organisme_geen_afdeling [OF h1 h2 h3, of "''maart.xlsx''" 2024 3]
  from t v have a: "''Organisme'' \<notin> set (drop 2 (kolomnamen
         [(''Organisme'', [Tekst ''E. coli'']), (''Resistentie'', [Tekst ''ESBL positief'']),
          (''Afd A'', [Getal 3])]))"
    by blast
  from t vb_laatste_verwerk_sheet
  have b: "Afdeling (vb_record (Tekst ''E. coli'') ''Afd A'' 3) \<noteq> ''Organisme''"
    by fastforce
  from h2 h3 v a b vb_laatste_verwerk_sheet show ?thesis by blast
qed




section \<open>Indicators and missing labels\<close>












lemma schoon_cel_tekst: "schoon_cel c = Tekst s \<Longrightarrow> s \<noteq> []"
  by (auto simp: schoon_cel_def Let_def split: if_splits)

lemma rij_record_indicatoren:
  "BRMO (rij_record jaar maand org res afd w)
     = of_bool (str_contains ''BRMO|ESBL|VRE|MRSA|CARBA'' False False (schoon_cel res))"
  "ESBL (rij_record jaar maand org res afd w) = of_bool (str_contains ''ESBL'' False False (schoon_cel res))"
  "VRE (rij_record jaar maand org res afd w) = of_bool (str_contains ''VRE'' False False (schoon_cel res))"
  "MRSA (rij_record jaar maand org res afd w) = of_bool (str_contains ''MRSA'' False False (schoon_cel res))"
  "CARBA (rij_record jaar maand org res afd w) = of_bool (str_contains ''CARBA'' False False (schoon_cel res))"
  by (simp_all add: rij_record_def binaire_kolommen_def)


lemma re_compile_brmo:
  "re_compile ''BRMO|ESBL|VRE|MRSA|CARBA'' = map (map Lit) [''BRMO'', ''ESBL'', ''VRE'', ''MRSA'', ''CARBA'']"
  by code_simp

lemma re_compile_esbl: "re_compile ''ESBL'' = map (map Lit) [''ESBL'']"
  and re_compile_vre: "re_compile ''VRE'' = map (map Lit) [''VRE'']"
  and re_compile_mrsa: "re_compile ''MRSA'' = map (map Lit) [''MRSA'']"
  and re_compile_carba: "re_compile ''CARBA'' = map (map Lit) [''CARBA'']"
  by code_simp+

lemma str_contains_tekst:
  "str_contains ''BRMO|ESBL|VRE|MRSA|CARBA'' False False (Tekst s)
     \<longleftrightarrow> bevat_ci s ''BRMO'' \<or> bevat_ci s ''ESBL'' \<or> bevat_ci s ''VRE'' \<or> bevat_ci s ''MRSA''
          \<or> bevat_ci s ''CARBA''"
  "str_contains ''ESBL'' False False (Tekst s) \<longleftrightarrow> bevat_ci s ''ESBL''"
  "str_contains ''VRE'' False False (Tekst s) \<longleftrightarrow> bevat_ci s ''VRE''"
  "str_contains ''MRSA'' False False (Tekst s) \<longleftrightarrow> bevat_ci s ''MRSA''"
  "str_contains ''CARBA'' False False (Tekst s) \<longleftrightarrow> bevat_ci s ''CARBA''"
  unfolding str_contains_def cel.case re_compile_brmo re_compile_esbl re_compile_vre
    re_compile_mrsa re_compile_carba re_search_lits bevat_ci_def
  by simp_all

text \<open>
  Claim C5. In every long record whose \<open>Resistentie\<close> is a text, that text is not empty,
  and each of the five indicators is 1 exactly when the text contains the trigger, the case
  of letters ignored: \<open>ESBL\<close>, \<open>VRE\<close>, \<open>MRSA\<close> and \<open>CARBA\<close> for their own name,
  \<open>BRMO\<close> for any of the five names; otherwise it is 0. A label that contains \<open>ESBL\<close>
  has \<open>ESBL = 1\<close> and \<open>BRMO = 1\<close>.
\<close>

theorem indicatoren_substring:
  assumes "verwerk_sheet xls sheet bestand jaar maand = Inr long_df"
    and "r \<in> set long_df" and "Resistentie r = Tekst s"
  shows "s \<noteq> []
         \<and> (BRMO r = 1 \<longleftrightarrow> bevat_ci s ''BRMO'' \<or> bevat_ci s ''ESBL'' \<or> bevat_ci s ''VRE''
                            \<or> bevat_ci s ''MRSA'' \<or> bevat_ci s ''CARBA'')
         \<and> (ESBL r = 1 \<longleftrightarrow> bevat_ci s ''ESBL'')
         \<and> (VRE r = 1 \<longleftrightarrow> bevat_ci s ''VRE'')
         \<and> (MRSA r = 1 \<longleftrightarrow> bevat_ci s ''MRSA'')
         \<and> (CARBA r = 1 \<longleftrightarrow> bevat_ci s ''CARBA'')
         \<and> (bevat_ci s ''ESBL'' \<longrightarrow> ESBL r = 1 \<and> BRMO r = 1)
         \<and> BRMO r \<in> {0, 1} \<and> ESBL r \<in> {0, 1} \<and> VRE r \<in> {0, 1} \<and> MRSA r \<in> {0, 1}
         \<and> CARBA r \<in> {0, 1}"
proof -
  from verwerk_sheet_rij [OF assms(1,2)] obtain org res afd w where
    r: "r = rij_record jaar maand org res afd w" by blast
  with assms(3) have s: "schoon_cel res = Tekst s" by (simp add: rij_record_velden)
  then have "s \<noteq> []" by (rule schoon_cel_tekst)
  then show ?thesis
    unfolding r rij_record_indicatoren s str_contains_tekst
    by (simp add: of_bool_def)
qed


lemma vb_tabel_verwerk_sheet:
  "verwerk_sheet (vb_xls_met vb_tabel) ''Blad1'' ''maart.xlsx'' 2024 3 =
     Inr [vb_record (Tekst ''E. coli'') ''Afd A'' 3, vb_record (Tekst ''E. coli'') ''Afd B'' 0]"
  by code_simp

lemma bevat_ci_vb: "bevat_ci ''ESBL positief'' ''ESBL''" and niet_bevat_ci_vb: "\<not> bevat_ci ''ESBL positief'' ''VRE''"
  by code_simp+

theorem indicatoren_substring_witness:
  "verwerk_sheet (vb_xls_met vb_tabel) ''Blad1'' ''maart.xlsx'' 2024 3 =
     Inr [vb_record (Tekst ''E. coli'') ''Afd A'' 3, vb_record (Tekst ''E. coli'') ''Afd B'' 0]
   \<and> Resistentie (vb_record (Tekst ''E. coli'') ''Afd A'' 3) = Tekst ''ESBL positief''
   \<and> bevat_ci ''ESBL positief'' ''ESBL''
   \<and> ESBL (vb_record (Tekst ''E. coli'') ''Afd A'' 3) = 1
   \<and> BRMO (vb_record (Tekst ''E. coli'') ''Afd A'' 3) = 1
   \<and> \<not> bevat_ci ''ESBL positief'' ''VRE''
   \<and> VRE (vb_record (Tekst ''E. coli'') ''Afd A'' 3) \<noteq> 1"
proof -
  let ?r = "vb_record (Tekst ''E. coli'') ''Afd A'' 3"
  have h2: "?r \<in> set [?r, vb_record (Tekst ''E. coli'') ''Afd B'' 0]" by simp
  have h3: "Resistentie ?r = Tekst ''ESBL positief''" by (simp add: vb_record_def)
  note t = indicatoren_substring [OF vb_tabel_verwerk_sheet h2 h3]
  from t bevat_ci_vb have "ESBL ?r = 1" "BRMO ?r = 1" by blast+
  moreover from t niet_bevat_ci_vb have "VRE ?r \<noteq> 1" by blast
  ultimately show ?thesis
    using vb_tabel_verwerk_sheet h3 bevat_ci_vb niet_bevat_ci_vb by blast
qed








lemma vb_blanco_kolommen:
  "iloc_kolom (genormaliseerd vb_blanco) 0
     = Inr [Tekst ''E. coli'', Tekst ''nan'', Tekst ''S. aureus'', Tekst ''K. oxytoca'']"
  "iloc_kolom (setitem (genormaliseerd vb_blanco) ''Organisme''
       (map schoon_cel [Tekst ''E. coli'', Tekst ''nan'', Tekst ''S. aureus'', Tekst ''K. oxytoca''])) 1
     = Inr [NaN, Tekst ''  '', Tekst ''MRSA'', Tekst ''nan'']"
  by code_simp+



section \<open>The date cell\<close>









lemma vb_strptime_fout:
  "strptime_dmy ''03-15-2024'' = Inl (ValueError ''time data does not match format %d-%m-%Y'')"
  by code_simp



section \<open>The run as a whole\<close>

lemma main_nooit_voltooid: "main map_inhoud \<noteq> Inr paar"
  by (auto simp: main_def main_try_def naam_opzoeken_def Let_def split: sum.splits)

lemma vb_map_alle_data:
  "verwerk_map vb_map [] =
     Inr [[vb_record (Tekst ''E. coli'') ''Afd A'' 3, vb_record (Tekst ''E. coli'') ''Afd B'' 0]]"
  by code_simp

lemma vb_map_bedoeld:
  "filter_exclusie (filter (\<lambda>r. Waarde r \<noteq> Getal 0)
       (concat [[vb_record (Tekst ''E. coli'') ''Afd A'' 3, vb_record (Tekst ''E. coli'') ''Afd B'' 0]]))
     = ([vb_record (Tekst ''E. coli'') ''Afd A'' 3], [])"
  by code_simp

text \<open>
  Claim C1. A run over a directory that yields records hands the aggregated table without
  its zero-valued rows to \<open>filter_exclusie\<close> and completes with the pair of retained and
  excluded rows. The script does not: on the directory holding the example workbook, where
  the loop collects two records, \<open>main\<close> ends in the error of line 217 around a NameError,
  because line 212 reads \<open>res_binair_no_o\<close> and line 209 bound \<open>res_binair_no_0\<close>.
\<close>

theorem main_vb_map_naamfout:
  "main vb_map = Inl (CombineerFout (NameError ''res_binair_no_o''))"
  by code_simp

end
